theory Spec2Isabelle
  imports Complex_Main "HOL-Library.AList" "HOL-Library.Log_Nat"
begin

section \<open>Numbers and errors\<close>

text \<open>
  The stroke model computes with Python floats and numpy arrays. Here a finite float is
  a \<^typ>\<open>real\<close> and every operation of the source is the exact operation on reals;
  the non-finite floats are added as constructors where the source tests for them
  (\<^verbatim>\<open>np.isnan\<close>) or can produce them (numpy's division by zero). The rounding of
  IEEE binary64 is treated separately (section ``Binary64 rounding''), for the one
  statement that depends on it.

  A raised exception is a value \<open>Inl e\<close> of the result.
\<close>

datatype error = ValueError | TypeError | ZeroDivisionError | UnboundLocalError

datatype npfloat = Fin real | PInf | NInf | NaN

text \<open>\<^verbatim>\<open>np.isnan\<close> on one element.\<close>

fun isnan :: "npfloat \<Rightarrow> bool" where
  "isnan NaN = True"
| "isnan _ = False"

text \<open>
  numpy's division of two finite elements: a zero divisor gives an infinity or NaN (and a
  warning), it does not raise.
\<close>

definition np_divide :: "real \<Rightarrow> real \<Rightarrow> npfloat" where
  "np_divide x y =
     (if y \<noteq> 0 then Fin (x / y)
      else if 0 < x then PInf else if x < 0 then NInf else NaN)"

text \<open>
  Subtraction, absolute value and comparison of elements as IEEE 754 defines them on the
  non-finite values; \<open>max_skipna\<close> is one step of a maximum that skips NaN, as the
  \<^verbatim>\<open>max\<close> of a pandas column does.
\<close>

fun np_subtract :: "npfloat \<Rightarrow> npfloat \<Rightarrow> npfloat" where
  "np_subtract (Fin a) (Fin b) = Fin (a - b)"
| "np_subtract NaN _ = NaN"
| "np_subtract _ NaN = NaN"
| "np_subtract PInf PInf = NaN"
| "np_subtract NInf NInf = NaN"
| "np_subtract PInf _ = PInf"
| "np_subtract NInf _ = NInf"
| "np_subtract (Fin a) PInf = NInf"
| "np_subtract (Fin a) NInf = PInf"

fun np_abs :: "npfloat \<Rightarrow> npfloat" where
  "np_abs (Fin a) = Fin \<bar>a\<bar>"
| "np_abs PInf = PInf"
| "np_abs NInf = PInf"
| "np_abs NaN = NaN"

fun max_skipna :: "npfloat \<Rightarrow> npfloat \<Rightarrow> npfloat" where
  "max_skipna NaN y = y"
| "max_skipna x NaN = x"
| "max_skipna PInf _ = PInf"
| "max_skipna _ PInf = PInf"
| "max_skipna NInf y = y"
| "max_skipna x NInf = x"
| "max_skipna (Fin a) (Fin b) = Fin (max a b)"

fun np_less_equal :: "npfloat \<Rightarrow> real \<Rightarrow> bool" where
  "np_less_equal (Fin a) c = (a \<le> c)"
| "np_less_equal NInf c = True"
| "np_less_equal PInf c = False"
| "np_less_equal NaN c = False"


section \<open>Severity (severity.py)\<close>

text \<open>
  An object of class \<^verbatim>\<open>RACE\<close> (or of its subclass \<^verbatim>\<open>NIHSS\<close>) holds
  \<^verbatim>\<open>_score\<close> and \<^verbatim>\<open>_NIHSS\<close>, read through the properties \<^verbatim>\<open>score\<close> and
  \<^verbatim>\<open>NIHSS\<close>.
\<close>

record severity =
  score :: real
  NIHSS :: real

text \<open>\<^verbatim>\<open>RACE._get_NIHSS\<close>, as a function of \<^verbatim>\<open>self.score\<close>.\<close>

definition get_NIHSS :: "real \<Rightarrow> real" where
  "get_NIHSS s = (if s = 0 then 1 else - 0.39 + 2.39 * s)"

text \<open>\<^verbatim>\<open>RACE.__init__\<close> with the setter of \<^verbatim>\<open>score\<close>.\<close>

definition RACE_init :: "real \<Rightarrow> error + severity" where
  "RACE_init s =
     (if s < 0 \<or> s > 9 then Inl ValueError
      else Inr \<lparr>score = s, NIHSS = get_NIHSS s\<rparr>)"

text \<open>\<^verbatim>\<open>NIHSS._get_RACE_score\<close>.\<close>

definition get_RACE_score :: "real \<Rightarrow> real" where
  "get_RACE_score s =
     (let race = (if s \<le> 1 then 0 else (s + 0.39) / 2.39)
      in if race > 9 then 0 else race)"

text \<open>\<^verbatim>\<open>NIHSS.__init__\<close>.\<close>

definition NIHSS_init :: "real \<Rightarrow> error + severity" where
  "NIHSS_init s =
     (if s < 0 \<or> s > 42 then Inl ValueError
      else RACE_init (get_RACE_score s))"




definition p_reperfusion_endovascular :: "severity \<Rightarrow> real" where
  "p_reperfusion_endovascular sev = 0.71"

definition p_early_reperfusion_thrombolysis :: "severity \<Rightarrow> real \<Rightarrow> real" where
  "p_early_reperfusion_thrombolysis sev time_to_groin = 0.18 * min 70 time_to_groin / 70"

text \<open>
  Modelled from the spec: \<^verbatim>\<open>constants.States\<close> is not among the files. The spec gives
  seven outcome states, mRS 0 through 6, mRS 6 being death; they index the last axis of
  the state tensor.
\<close>

datatype States = MRS_0 | MRS_1 | MRS_2 | MRS_3 | MRS_4 | MRS_5 | MRS_6

definition all_states :: "States list" where
  "all_states = [MRS_0, MRS_1, MRS_2, MRS_3, MRS_4, MRS_5, MRS_6]"

definition NUMBER_OF_STATES :: nat where
  "NUMBER_OF_STATES = length all_states"

text \<open>
  The nested \<^verbatim>\<open>np.where\<close> that fills \<^verbatim>\<open>states[:, :, MRS_6]\<close>: the death
  probability of the NIHSS band.
\<close>

definition p_death :: "severity \<Rightarrow> real" where
  "p_death sev =
     (if NIHSS sev < 7 then 0.042
      else if NIHSS sev < 13 then 0.139
      else if NIHSS sev < 21 then 0.316 else 0.535)"

text \<open>
  \<^verbatim>\<open>break_up_ais_patients\<close>. The array \<open>p_good_outcome\<close> is the list of its rows
  (samples), a row the list of its elements (hospitals); a cell of the tensor is the
  function from the state to its probability. \<open>break_up_cell\<close> is what the slice
  assignments store in the cell of one element, in the order of the source, starting
  from \<^verbatim>\<open>np.zeros\<close>.
\<close>

definition break_up_cell :: "severity \<Rightarrow> real \<Rightarrow> States \<Rightarrow> real" where
  "break_up_cell sev p_good_outcome =
     (let states = (\<lambda>_. 0);
          states = states (MRS_6 := p_death sev);
          states = states (MRS_0 := 0.205627706 * p_good_outcome);
          states = states (MRS_1 := 0.341991342 * p_good_outcome);
          states = states (MRS_2 := 0.452380952 * p_good_outcome);
          p_bad = 1 - p_good_outcome - states MRS_6;
          states = states (MRS_3 := 0.35678392 * p_bad);
          states = states (MRS_4 := 0.432160804 * p_bad);
          states = states (MRS_5 := 0.211055276 * p_bad)
      in states)"

definition break_up_ais_patients :: "severity \<Rightarrow> real list list \<Rightarrow> (States \<Rightarrow> real) list list" where
  "break_up_ais_patients sev p_good_outcome = map (map (break_up_cell sev)) p_good_outcome"

text \<open>
  \<^verbatim>\<open>RACE.prob_LVO_given_AIS\<close>. \<^verbatim>\<open>np.random.uniform(lower, upper, n)\<close> is
  \<open>lower + (upper - lower) * u\<close> for \<open>n\<close> variates \<open>u\<close> of the generator, each in
  \<open>[0, 1)\<close>; the generator is the parameter \<open>rng\<close>, its \<open>i\<close>-th variate \<open>rng i\<close>.
  The result has shape \<open>(n, 1)\<close>: a list of \<open>n\<close> one-element rows.
\<close>

definition p_lvo_logistic_helper :: "severity \<Rightarrow> real \<Rightarrow> real \<Rightarrow> real" where
  "p_lvo_logistic_helper sev b0 b1 = 1 / (1 + exp (- b0 - b1 * score sev))"

definition prob_LVO_given_AIS :: "(nat \<Rightarrow> real) \<Rightarrow> severity \<Rightarrow> nat \<Rightarrow> bool \<Rightarrow> real list list" where
  "prob_LVO_given_AIS rng sev n add_uncertainty =
     (let p_lvo =
        (if \<not> add_uncertainty then replicate n (p_lvo_logistic_helper sev (- 2.9297) 0.5533)
         else
           (let lower = p_lvo_logistic_helper sev (- 3.6526) 0.4141;
                upper = p_lvo_logistic_helper sev (- 2.2067) 0.6925
            in map (\<lambda>i. lower + (upper - lower) * rng i) [0..<n]))
      in map (\<lambda>x. [x]) p_lvo)"

section \<open>StrokeModel (stroke_model.py)\<close>

text \<open>
  Modelled from the spec: \<^verbatim>\<open>stroke_center\<close> is not among the files. A hospital has an
  identifier, a center type and a travel time; \<^verbatim>\<open>stroke_model.py\<close> reads the members
  \<^verbatim>\<open>PRIMARY\<close> and \<^verbatim>\<open>COMPREHENSIVE\<close> of \<^verbatim>\<open>CenterType\<close>. The travel time is a
  float, NaN when unknown.
\<close>

datatype CenterType = PRIMARY | COMPREHENSIVE

record 'id center =
  center_id :: 'id
  center_type :: CenterType
  time :: npfloat

text \<open>
  The object: \<^verbatim>\<open>_patient\<close>, \<^verbatim>\<open>_hospitals\<close> and \<^verbatim>\<open>_threshold_ICER\<close>, as
  \<^verbatim>\<open>__init__\<close> stores them.
\<close>

record ('p, 'id) StrokeModel =
  private_patient :: 'p
  private_hospitals :: "'id center list"
  private_threshold_ICER :: real

definition StrokeModel_init :: "'p \<Rightarrow> 'id center list \<Rightarrow> real \<Rightarrow> ('p, 'id) StrokeModel" where
  "StrokeModel_init patient hospitals threshold_ICER =
     \<lparr>private_patient = patient, private_hospitals = hospitals,
      private_threshold_ICER = threshold_ICER\<rparr>"

text \<open>The properties \<^verbatim>\<open>hospitals\<close>, \<^verbatim>\<open>primaries\<close> and \<^verbatim>\<open>comprehensives\<close>.\<close>

definition hospitals :: "('p, 'id) StrokeModel \<Rightarrow> 'id center list" where
  "hospitals self = filter (\<lambda>x. \<not> isnan (time x)) (private_hospitals self)"

definition primaries :: "('p, 'id) StrokeModel \<Rightarrow> 'id center list" where
  "primaries self = filter (\<lambda>x. center_type x = PRIMARY) (hospitals self)"

definition comprehensives :: "('p, 'id) StrokeModel \<Rightarrow> 'id center list" where
  "comprehensives self = filter (\<lambda>x. center_type x = COMPREHENSIVE) (hospitals self)"

text \<open>
  A value of the travel-time lookup: a number, a string, or an object that is neither
  (written \<open>PyNone\<close>, as Python's \<^verbatim>\<open>None\<close> is). \<^verbatim>\<open>float(v)\<close> returns a number
  as it is, parses a string and raises ValueError when the string is no number, and
  raises TypeError on any other object. How Python reads a string as a float is the
  parameter \<open>float_of_str\<close> (\<open>None\<close>: the string is rejected).
\<close>

datatype pyval = PyNumber npfloat | PyStr string | PyNone

fun py_float :: "(string \<Rightarrow> npfloat option) \<Rightarrow> pyval \<Rightarrow> error + npfloat" where
  "py_float float_of_str (PyNumber x) = Inr x"
| "py_float float_of_str (PyStr s) =
     (case float_of_str s of Some x \<Rightarrow> Inr x | None \<Rightarrow> Inl ValueError)"
| "py_float float_of_str PyNone = Inl TypeError"

text \<open>
  \<^verbatim>\<open>set_times\<close>: \<open>set_time\<close> is the body of the loop for one hospital (the
  \<^verbatim>\<open>except\<close> clause catches ValueError and nothing else), \<open>set_times_loop\<close> the
  loop, which an exception leaves. \<open>str_of\<close> is \<^verbatim>\<open>str\<close> on identifiers, and
  \<open>times'\<close> the lookup \<^verbatim>\<open>times\<close>.
\<close>

definition set_time :: "('id \<Rightarrow> string) \<Rightarrow> (string \<Rightarrow> npfloat option) \<Rightarrow> (string \<rightharpoonup> pyval)
    \<Rightarrow> 'id center \<Rightarrow> error + 'id center" where
  "set_time str_of float_of_str times' center =
     (let cid = str_of (center_id center)
      in case times' cid of
           Some v \<Rightarrow>
             (case py_float float_of_str v of
                Inr x \<Rightarrow> Inr (center\<lparr>time := x\<rparr>)
              | Inl ValueError \<Rightarrow> Inr (center\<lparr>time := NaN\<rparr>)
              | Inl e \<Rightarrow> Inl e)
         | None \<Rightarrow> Inr (center\<lparr>time := NaN\<rparr>))"

fun set_times_loop :: "('id \<Rightarrow> string) \<Rightarrow> (string \<Rightarrow> npfloat option) \<Rightarrow> (string \<rightharpoonup> pyval)
    \<Rightarrow> 'id center list \<Rightarrow> error + 'id center list" where
  "set_times_loop str_of float_of_str times' [] = Inr []"
| "set_times_loop str_of float_of_str times' (center # rest) =
     (case set_time str_of float_of_str times' center of
        Inl e \<Rightarrow> Inl e
      | Inr center' \<Rightarrow>
          (case set_times_loop str_of float_of_str times' rest of
             Inl e \<Rightarrow> Inl e
           | Inr rest' \<Rightarrow> Inr (center' # rest')))"

definition set_times :: "('id \<Rightarrow> string) \<Rightarrow> (string \<Rightarrow> npfloat option) \<Rightarrow> ('p, 'id) StrokeModel
    \<Rightarrow> (string \<rightharpoonup> pyval) \<Rightarrow> error + ('p, 'id) StrokeModel" where
  "set_times str_of float_of_str self times' =
     (case set_times_loop str_of float_of_str times' (private_hospitals self) of
        Inl e \<Rightarrow> Inl e
      | Inr hs \<Rightarrow> Inr (self\<lparr>private_hospitals := hs\<rparr>))"

text \<open>
  A frequency table is a pandas DataFrame with the hospital names as index and the one
  column \<^verbatim>\<open>count\<close>: the list of its rows. \<open>df_sub\<close> is the subtraction of two
  such tables, which aligns them on the index: a name of one table only gets NaN (pandas
  sorts the rows of the result, which no later step depends on). \<open>df_max\<close> is the
  column's maximum, NaN when nothing is left after skipping NaN.
\<close>

type_synonym table = "(string \<times> npfloat) list"

definition df_sub :: "table \<Rightarrow> table \<Rightarrow> table" where
  "df_sub a b =
     map (\<lambda>(k, v). (k, case map_of b k of Some w \<Rightarrow> np_subtract v w | None \<Rightarrow> NaN)) a
     @ map (\<lambda>(k, w). (k, NaN)) (filter (\<lambda>(k, w). map_of a k = None) b)"

definition df_abs :: "table \<Rightarrow> table" where
  "df_abs a = map (\<lambda>(k, v). (k, np_abs v)) a"

definition df_max :: "table \<Rightarrow> npfloat" where
  "df_max a = foldr max_skipna (map snd a) NaN"

text \<open>
  \<^verbatim>\<open>_check_convergence\<close>. \<open>counts_by_center\<close> is the list of the items of
  \<^verbatim>\<open>markov_results.counts_by_center\<close>, \<open>str_of\<close> is \<^verbatim>\<open>str\<close> on hospitals. The dict
  comprehension keeps one entry per name (the last count, at the place of the first).
  \<^verbatim>\<open>.any()\<close> is over the one column.
\<close>

definition check_convergence :: "('c \<Rightarrow> string) \<Rightarrow> ('c \<times> nat) list \<Rightarrow> nat \<Rightarrow> table option \<Rightarrow> bool \<times> table" where
  "check_convergence str_of counts_by_center n_sim old_df_cbc =
     (let CONVERGENCE_THRESH = 0.01;
          cbc = foldl (\<lambda>d (center, count). AList.update (str_of center) count d) [] counts_by_center;
          df_cbc = map (\<lambda>(k, count). (k, np_divide (real count) (real n_sim))) cbc;
          convergence =
            (case old_df_cbc of
               None \<Rightarrow> False
             | Some old \<Rightarrow> np_less_equal (df_max (df_abs (df_sub df_cbc old))) CONVERGENCE_THRESH)
      in (convergence, df_cbc))"

text \<open>
  \<^verbatim>\<open>run_new\<close>. The sampling and outcome pipeline of one iteration
  (\<^verbatim>\<open>IschemicTimes\<close>, \<^verbatim>\<open>IschemicModel\<close>, \<^verbatim>\<open>Population\<close>, \<^verbatim>\<open>Results\<close>) is not
  among the files: \<open>pipeline c n\<close> is what iteration \<open>c\<close> computes with \<open>n\<close>
  simulations (it draws fresh samples each time, hence the \<open>c\<close>), and
  \<open>counts_by_center\<close> reads the counts off its result.

  The state of the loop holds the local variables \<^verbatim>\<open>convergence\<close>, \<^verbatim>\<open>n_sim\<close>,
  \<^verbatim>\<open>old_df_cbc\<close> and the results of the last iteration (\<open>None\<close> before the first),
  and two logs of what the loop does: \<open>n_sim_log\<close>, the \<^verbatim>\<open>n_sim\<close> each iteration
  passed to the pipeline, and \<open>printed\<close>, the numbers printed.
\<close>

record 'r run_state =
  convergence :: bool
  n_sim :: nat
  old_df_cbc :: "table option"
  markov_results :: "'r option"
  n_sim_log :: "nat list"
  printed :: "nat list"

definition NRUN_MAX :: nat where
  "NRUN_MAX = 20"

fun run_new_loop :: "(nat \<Rightarrow> nat \<Rightarrow> 'r) \<Rightarrow> ('r \<Rightarrow> ('c \<times> nat) list) \<Rightarrow> ('c \<Rightarrow> string)
    \<Rightarrow> nat list \<Rightarrow> 'r run_state \<Rightarrow> 'r run_state" where
  "run_new_loop pipeline counts_by_center str_of [] st = st"
| "run_new_loop pipeline counts_by_center str_of (c # cs) st =
     (let res = pipeline c (n_sim st);
          (conv, df_cbc) = check_convergence str_of (counts_by_center res) (n_sim st) (old_df_cbc st);
          st' = st\<lparr>convergence := conv, n_sim := n_sim st + 1000 * (c + 1),
                   old_df_cbc := Some df_cbc, markov_results := Some res,
                   n_sim_log := n_sim_log st @ [n_sim st]\<rparr>
      in if conv then st'
         else run_new_loop pipeline counts_by_center str_of cs
                (st'\<lparr>printed := printed st' @ [n_sim st']\<rparr>))"

text \<open>The state in which \<^verbatim>\<open>run_new\<close> leaves its loop.\<close>

definition run_new_state :: "(nat \<Rightarrow> nat \<Rightarrow> 'r) \<Rightarrow> ('r \<Rightarrow> ('c \<times> nat) list) \<Rightarrow> ('c \<Rightarrow> string) \<Rightarrow> 'r run_state" where
  "run_new_state pipeline counts_by_center str_of =
     run_new_loop pipeline counts_by_center str_of [0..<NRUN_MAX]
       \<lparr>convergence = False, n_sim = 5000, old_df_cbc = None, markov_results = None,
        n_sim_log = [], printed = []\<rparr>"

text \<open>
  What \<^verbatim>\<open>run_new\<close> returns: the results of the last iteration. Were there none, the
  \<^verbatim>\<open>return\<close> would read unbound variables.
\<close>

definition run_new :: "(nat \<Rightarrow> nat \<Rightarrow> 'r) \<Rightarrow> ('r \<Rightarrow> ('c \<times> nat) list) \<Rightarrow> ('c \<Rightarrow> string) \<Rightarrow> error + 'r" where
  "run_new pipeline counts_by_center str_of =
     (case markov_results (run_new_state pipeline counts_by_center str_of) of
        None \<Rightarrow> Inl UnboundLocalError
      | Some res \<Rightarrow> Inr res)"

section \<open>Binary64 rounding\<close>

text \<open>
  A Python float is an IEEE 754 binary64 number, and every arithmetic operation and every
  decimal literal of the source is rounded to the nearest such number, ties to even.
  \<open>b64\<close> is this rounding, for results below \<open>2 ^ 1024\<close> in magnitude (no overflow):
  \<open>ilog2 x\<close> is the binary exponent of \<open>x > 0\<close>, the result keeps 53 significant
  bits, and the exponent does not go below that of the subnormal numbers.
\<close>

definition round_half_even :: "real \<Rightarrow> int" where
  "round_half_even x =
     (let f = \<lfloor>x\<rfloor>; r = x - of_int f
      in if r < 1 / 2 then f else if r > 1 / 2 then f + 1 else if even f then f else f + 1)"

definition ilog2 :: "real \<Rightarrow> int" where
  "ilog2 x = (if 1 \<le> x then bitlen \<lfloor>x\<rfloor> - 1 else - bitlen (\<lceil>1 / x\<rceil> - 1))"

definition pow2 :: "int \<Rightarrow> real" where
  "pow2 e = (if 0 \<le> e then 2 ^ nat e else 1 / 2 ^ nat (- e))"

definition b64 :: "real \<Rightarrow> real" where
  "b64 x =
     (if x = 0 then 0
      else (let e = max (ilog2 \<bar>x\<bar> - 52) (- 1074)
            in of_int (round_half_even (x / pow2 e)) * pow2 e))"

text \<open>
  The two conversions and the two constructors of severity.py once more, with the
  rounding of each literal and each operation written out. The argument is a binary64
  number itself.
\<close>

definition get_NIHSS_b64 :: "real \<Rightarrow> real" where
  "get_NIHSS_b64 s = (if s = 0 then 1 else b64 (- b64 0.39 + b64 (b64 2.39 * s)))"

definition RACE_init_b64 :: "real \<Rightarrow> error + severity" where
  "RACE_init_b64 s =
     (if s < 0 \<or> s > 9 then Inl ValueError
      else Inr \<lparr>score = s, NIHSS = get_NIHSS_b64 s\<rparr>)"

definition get_RACE_score_b64 :: "real \<Rightarrow> real" where
  "get_RACE_score_b64 s =
     (let race = (if s \<le> 1 then 0 else b64 (b64 (s + b64 0.39) / b64 2.39))
      in if race > 9 then 0 else race)"

definition NIHSS_init_b64 :: "real \<Rightarrow> error + severity" where
  "NIHSS_init_b64 s =
     (if s < 0 \<or> s > 42 then Inl ValueError
      else RACE_init_b64 (get_RACE_score_b64 s))"

section \<open>Notions used in the statements\<close>


text \<open>A table all of whose entries are finite.\<close>

definition finite_valued :: "table \<Rightarrow> bool" where
  "finite_valued a = (\<forall>v \<in> snd ` set a. \<exists>x. v = Fin x)"

text \<open>
  An instance of \<open>float_of_str\<close> for examples: it reads a string of decimal digits as
  Python does and rejects every other string (Python accepts more: signs, fractions,
  exponents).
\<close>

fun digits_value :: "string \<Rightarrow> nat \<Rightarrow> nat option" where
  "digits_value [] acc = Some acc"
| "digits_value (c # cs) acc =
     (if c \<in> set ''0123456789''
      then digits_value cs (10 * acc + (of_char c - 48))
      else None)"

definition float_of_digits :: "string \<Rightarrow> npfloat option" where
  "float_of_digits s =
     (if s = [] then None else map_option (\<lambda>n. Fin (real n)) (digits_value s 0))"

section \<open>Severity conversions\<close>

lemma get_RACE_score_range: "0 \<le> s \<Longrightarrow> 0 \<le> get_RACE_score s \<and> get_RACE_score s \<le> 9"
  by (simp add: get_RACE_score_def Let_def)

lemma exceeds_nine_iff: "(s + 0.39) / 2.39 > 9 \<longleftrightarrow> s > (21.12::real)"
  by (simp add: field_simps)

lemma RACE_init_Inr: "RACE_init r = Inr a \<longleftrightarrow> 0 \<le> r \<and> r \<le> 9 \<and> a = \<lparr>score = r, NIHSS = get_NIHSS r\<rparr>"
  by (auto simp: RACE_init_def)

lemma RACE_init_accepts: "(\<exists>a. RACE_init r = Inr a) \<longleftrightarrow> 0 \<le> r \<and> r \<le> 9"
  by (simp add: RACE_init_Inr)

lemma NIHSS_init_Inr:
  "NIHSS_init s = Inr a \<longleftrightarrow>
     0 \<le> s \<and> s \<le> 42 \<and> a = \<lparr>score = get_RACE_score s, NIHSS = get_NIHSS (get_RACE_score s)\<rparr>"
  using get_RACE_score_range [of s] by (auto simp: NIHSS_init_def RACE_init_Inr)

lemma get_NIHSS_order:
  assumes "0 \<le> r" and "r \<le> r'"
  shows "(get_NIHSS r \<le> get_NIHSS r') = (\<not> (r = 0 \<and> 0 < r' \<and> r' < 139 / 239))"
  using assms by (auto simp: get_NIHSS_def field_simps)

lemma get_NIHSS_whole_scores:
  assumes "r \<in> \<int>" and "r' \<in> \<int>" and "0 \<le> r" and "r \<le> r'"
  shows "get_NIHSS r \<le> get_NIHSS r'"
proof (cases "r = 0 \<and> 0 < r'")
  case True
  from assms(2) obtain j :: int where j: "r' = of_int j" by (auto elim: Ints_cases)
  with True have "1 \<le> j" by simp
  then have "1 \<le> r'" using j by simp
  then have "\<not> r' < 139 / 239" by simp
  then show ?thesis using assms(3,4) get_NIHSS_order [of r r'] by blast
next
  case False
  then show ?thesis using assms(3,4) get_NIHSS_order [of r r'] by blast
qed

text \<open>
  C5 (as amended). For every score \<open>r\<close> the RACE constructor accepts (\<open>r\<close> in [0, 9]),
  the derived NIHSS is 1 when \<open>r = 0\<close> and \<open>-0.39 + 2.39 r\<close> otherwise, so NIHSS(0) = 1.
  For accepted scores \<open>r \<le> r'\<close>, NIHSS(r) \<open>\<le>\<close> NIHSS(r') holds except when \<open>r = 0\<close> and
  \<open>0 < r' < 139/239\<close>, where NIHSS(r') is below NIHSS(0) = 1: the mapping is
  non-decreasing over the whole-number scores 0..9 (and over 0 together with
  [139/239, 9]), not over all of [0, 9].
\<close>

theorem C5_race_to_nihss:
  assumes "RACE_init r = Inr a" and "RACE_init r' = Inr b" and "r \<le> r'"
  shows "0 \<le> r \<and> r \<le> 9
       \<and> NIHSS a = (if r = 0 then 1 else - 0.39 + 2.39 * r)
       \<and> (r = 0 \<longrightarrow> NIHSS a = 1)
       \<and> ((NIHSS a \<le> NIHSS b) = (\<not> (r = 0 \<and> 0 < r' \<and> r' < 139 / 239)))
       \<and> (r \<in> \<int> \<and> r' \<in> \<int> \<longrightarrow> NIHSS a \<le> NIHSS b)"
proof -
  from assms(1) have r: "0 \<le> r" "r \<le> 9" and a: "NIHSS a = get_NIHSS r"
    by (simp_all add: RACE_init_Inr)
  from assms(2) have b: "NIHSS b = get_NIHSS r'"
    by (simp add: RACE_init_Inr)
  have "NIHSS a = (if r = 0 then 1 else - 0.39 + 2.39 * r)"
    using a by (simp add: get_NIHSS_def)
  moreover have "(NIHSS a \<le> NIHSS b) = (\<not> (r = 0 \<and> 0 < r' \<and> r' < 139 / 239))"
    using a b r(1) assms(3) by (simp only: get_NIHSS_order)
  moreover have "r \<in> \<int> \<and> r' \<in> \<int> \<longrightarrow> NIHSS a \<le> NIHSS b"
    using a b r(1) assms(3) by (simp add: get_NIHSS_whole_scores)
  ultimately show ?thesis using r by simp
qed

theorem C5_race_to_nihss_witness:
  "RACE_init 0 = Inr \<lparr>score = 0, NIHSS = 1\<rparr>
   \<and> RACE_init 9 = Inr \<lparr>score = 9, NIHSS = 21.12\<rparr>
   \<and> NIHSS \<lparr>score = 0, NIHSS = 1\<rparr> \<le> NIHSS \<lparr>score = 9, NIHSS = 21.12\<rparr>"
proof -
  have a: "RACE_init 0 = Inr \<lparr>score = 0, NIHSS = 1\<rparr>"
    by (simp add: RACE_init_def get_NIHSS_def)
  have b: "RACE_init 9 = Inr \<lparr>score = 9, NIHSS = 21.12\<rparr>"
    by (simp add: RACE_init_def get_NIHSS_def)
  show ?thesis
    using a b C5_race_to_nihss [OF a b] by simp
qed

text \<open>
  The claim as stated fails: 0 and 1/10 are both accepted, \<open>0 \<le> 1/10\<close>, and the
  derived NIHSS drops from 1 to -0.151.
\<close>

theorem C5_not_monotone_counterexample:
  "RACE_init 0 = Inr \<lparr>score = 0, NIHSS = 1\<rparr>
   \<and> RACE_init (1 / 10) = Inr \<lparr>score = 1 / 10, NIHSS = - 0.151\<rparr>
   \<and> NIHSS \<lparr>score = 1 / 10, NIHSS = - 0.151\<rparr> < NIHSS \<lparr>score = 0, NIHSS = 1\<rparr>"
  by (simp add: RACE_init_def get_NIHSS_def)

text \<open>
  C6. A severity built from an NIHSS score \<open>s\<close> in [0, 42] holds the RACE score 0 if
  \<open>s \<le> 1\<close> and \<open>(s + 0.39) / 2.39\<close> otherwise, except that a derived value above 9 is
  reset to 0 (not clamped to 9); the derived value is above 9 exactly for \<open>s > 21.12\<close>,
  and \<open>s = 42\<close> is such a score; \<open>s = 0\<close> and \<open>s = 1\<close> give RACE 0.
\<close>

theorem C6_nihss_to_race:
  assumes "0 \<le> s" and "s \<le> 42"
  shows "(\<exists>a. NIHSS_init s = Inr a
            \<and> score a = (if s \<le> 1 then 0
                         else if (s + 0.39) / 2.39 > 9 then 0 else (s + 0.39) / 2.39))
       \<and> (((s + 0.39) / 2.39 > 9) = (s > 21.12))
       \<and> (s > 21.12 \<longrightarrow> (\<exists>a. NIHSS_init s = Inr a \<and> score a = 0))
       \<and> (\<exists>a. NIHSS_init 42 = Inr a \<and> score a = 0)
       \<and> (\<exists>a. NIHSS_init 0 = Inr a \<and> score a = 0)
       \<and> (\<exists>a. NIHSS_init 1 = Inr a \<and> score a = 0)"
proof -
  have "\<exists>a. NIHSS_init s = Inr a
            \<and> score a = (if s \<le> 1 then 0
                         else if (s + 0.39) / 2.39 > 9 then 0 else (s + 0.39) / 2.39)"
    using assms by (simp add: NIHSS_init_Inr get_RACE_score_def Let_def)
  moreover have "((s + 0.39) / 2.39 > 9) = (s > 21.12)"
    by (rule exceeds_nine_iff)
  moreover have "s > 21.12 \<longrightarrow> (\<exists>a. NIHSS_init s = Inr a \<and> score a = 0)"
    using assms by (simp add: NIHSS_init_Inr get_RACE_score_def Let_def field_simps)
  moreover have "\<exists>a. NIHSS_init 42 = Inr a \<and> score a = 0"
    by (simp add: NIHSS_init_Inr get_RACE_score_def Let_def)
  moreover have "\<exists>a. NIHSS_init 0 = Inr a \<and> score a = 0"
    by (simp add: NIHSS_init_Inr get_RACE_score_def Let_def)
  moreover have "\<exists>a. NIHSS_init 1 = Inr a \<and> score a = 0"
    by (simp add: NIHSS_init_Inr get_RACE_score_def Let_def)
  ultimately show ?thesis by blast
qed

theorem C6_nihss_to_race_witness:
  "NIHSS_init 42 = Inr \<lparr>score = 0, NIHSS = 1\<rparr>
   \<and> NIHSS_init 10 = Inr \<lparr>score = 1039 / 239, NIHSS = 10\<rparr>"
proof -
  have "\<exists>a. NIHSS_init 42 = Inr a \<and> score a = 0"
    using C6_nihss_to_race [of 42] by simp
  moreover have "\<exists>a. NIHSS_init 10 = Inr a \<and> score a = 1039 / 239"
    using C6_nihss_to_race [of 10] by simp
  ultimately show ?thesis
    by (auto simp: NIHSS_init_Inr get_NIHSS_def)
qed

section \<open>The state tensor\<close>

lemma break_up_cell_values:
  "break_up_cell sev p MRS_0 = 0.205627706 * p"
  "break_up_cell sev p MRS_1 = 0.341991342 * p"
  "break_up_cell sev p MRS_2 = 0.452380952 * p"
  "break_up_cell sev p MRS_3 = 0.35678392 * (1 - p - p_death sev)"
  "break_up_cell sev p MRS_4 = 0.432160804 * (1 - p - p_death sev)"
  "break_up_cell sev p MRS_5 = 0.211055276 * (1 - p - p_death sev)"
  "break_up_cell sev p MRS_6 = p_death sev"
  by (simp_all add: break_up_cell_def Let_def)

lemma shares_sum:
  fixes p d :: real
  shows "0.205627706 * p + (0.341991342 * p + (0.452380952 * p
         + (0.35678392 * (1 - p - d) + (0.432160804 * (1 - p - d)
         + (0.211055276 * (1 - p - d) + d))))) = 1"
  by (simp add: field_simps)

lemma break_up_cell_sum: "sum_list (map (break_up_cell sev p) all_states) = 1"
  unfolding all_states_def list.map sum_list.Cons sum_list.Nil break_up_cell_values
  using shares_sum [of p "p_death sev"] by simp

lemma break_up_ais_patients_nth:
  assumes "i < length P" and "j < length (P ! i)"
  shows "break_up_ais_patients sev P ! i ! j = break_up_cell sev (P ! i ! j)"
  using assms by (simp add: break_up_ais_patients_def)

lemma break_up_ais_patients_shape:
  "length (break_up_ais_patients sev P) = length P"
  "i < length P \<Longrightarrow> length (break_up_ais_patients sev P ! i) = length (P ! i)"
  by (simp_all add: break_up_ais_patients_def)

text \<open>
  C1. For every severity and every array of good-outcome probabilities, the tensor
  returned by \<^verbatim>\<open>break_up_ais_patients\<close> has the shape of the array with seven states
  per cell, and in every (sample, hospital) cell the seven state probabilities sum to 1
  within 1e-9 (in exact arithmetic they sum to 1): mRS 0-2 are the shares 0.205627706,
  0.341991342 and 0.452380952 of the good-outcome probability, mRS 6 is the death
  constant of the NIHSS band, and mRS 3-5 are the shares 0.35678392, 0.432160804 and
  0.211055276 of the remaining mass.
\<close>

theorem C1_states_sum_to_one:
  assumes "i < length p_good_outcome" and "j < length (p_good_outcome ! i)"
  shows "length (break_up_ais_patients sev p_good_outcome) = length p_good_outcome
       \<and> length (break_up_ais_patients sev p_good_outcome ! i) = length (p_good_outcome ! i)
       \<and> (let states = break_up_ais_patients sev p_good_outcome ! i ! j;
               p = p_good_outcome ! i ! j
           in \<bar>sum_list (map states all_states) - 1\<bar> \<le> 1 / 10 ^ 9
            \<and> states MRS_0 = 0.205627706 * p
            \<and> states MRS_1 = 0.341991342 * p
            \<and> states MRS_2 = 0.452380952 * p
            \<and> states MRS_6 = (if NIHSS sev < 7 then 0.042 else if NIHSS sev < 13 then 0.139
                                else if NIHSS sev < 21 then 0.316 else 0.535)
            \<and> states MRS_3 = 0.35678392 * (1 - p - states MRS_6)
            \<and> states MRS_4 = 0.432160804 * (1 - p - states MRS_6)
            \<and> states MRS_5 = 0.211055276 * (1 - p - states MRS_6))"
  using assms
  by (simp add: break_up_ais_patients_shape break_up_ais_patients_nth break_up_cell_sum
      break_up_cell_values Let_def p_death_def)

lemma nihss10: "NIHSS_init 10 = Inr \<lparr>score = 1039 / 239, NIHSS = 10\<rparr>"
  by (simp add: NIHSS_init_Inr get_RACE_score_def get_NIHSS_def Let_def)

theorem C1_states_sum_to_one_witness:
  "NIHSS_init 10 = Inr \<lparr>score = 1039 / 239, NIHSS = 10\<rparr>
   \<and> (break_up_ais_patients \<lparr>score = 1039 / 239, NIHSS = 10\<rparr>
         [[0.5, 0.5], [0.5, 0.5], [0.5, 0.5]] ! 2 ! 1) MRS_6 = 0.139
   \<and> (break_up_ais_patients \<lparr>score = 1039 / 239, NIHSS = 10\<rparr>
         [[0.5, 0.5], [0.5, 0.5], [0.5, 0.5]] ! 2 ! 1) MRS_0 = 0.5 * 0.205627706
   \<and> \<bar>sum_list (map (break_up_ais_patients \<lparr>score = 1039 / 239, NIHSS = 10\<rparr>
         [[0.5, 0.5], [0.5, 0.5], [0.5, 0.5]] ! 2 ! 1) all_states) - 1\<bar> \<le> 1 / 10 ^ 9"
proof -
  let ?P = "[[0.5, 0.5], [0.5, 0.5], [0.5, 0.5 :: real]]"
  let ?sev = "\<lparr>score = 1039 / 239, NIHSS = 10\<rparr>"
  have "2 < length ?P" and "1 < length (?P ! 2)" by simp_all
  from C1_states_sum_to_one [OF this, of ?sev]
  show ?thesis
    by (simp add: Let_def nihss10)
qed

section \<open>Probability of a large vessel occlusion\<close>


lemma logistic_mono:
  assumes "- b0' - b1' * score sev \<le> - b0 - b1 * score sev"
  shows "p_lvo_logistic_helper sev b0 b1 \<le> p_lvo_logistic_helper sev b0' b1'"
proof -
  have "exp (- b0' - b1' * score sev) \<le> exp (- b0 - b1 * score sev)"
    using assms by simp
  moreover have "0 < 1 + exp (- b0' - b1' * score sev)"
    by (simp add: add_pos_pos)
  ultimately show ?thesis
    unfolding p_lvo_logistic_helper_def by (intro divide_left_mono) (simp_all add: add_pos_pos)
qed

lemma lvo_curves_ordered:
  assumes "0 \<le> score sev"
  shows "p_lvo_logistic_helper sev (- 3.6526) 0.4141 \<le> p_lvo_logistic_helper sev (- 2.9297) 0.5533"
    and "p_lvo_logistic_helper sev (- 2.9297) 0.5533 \<le> p_lvo_logistic_helper sev (- 2.2067) 0.6925"
proof -
  show "p_lvo_logistic_helper sev (- 3.6526) 0.4141 \<le> p_lvo_logistic_helper sev (- 2.9297) 0.5533"
    using assms by (intro logistic_mono) (simp add: field_simps)
  show "p_lvo_logistic_helper sev (- 2.9297) 0.5533 \<le> p_lvo_logistic_helper sev (- 2.2067) 0.6925"
    using assms by (intro logistic_mono) (simp add: field_simps)
qed

lemma uniform_between:
  fixes lower upper u :: real
  assumes "lower \<le> upper" and "0 \<le> u" and "u < 1"
  shows "lower \<le> lower + (upper - lower) * u" and "lower + (upper - lower) * u \<le> upper"
proof -
  have d: "0 \<le> upper - lower" using assms(1) by simp
  show "lower \<le> lower + (upper - lower) * u"
    using d assms(2) by simp
  have "(upper - lower) * u \<le> (upper - lower) * 1"
    using d assms(3) by (intro mult_left_mono) simp_all
  then show "lower + (upper - lower) * u \<le> upper" by simp
qed

lemma prob_LVO_point:
  "prob_LVO_given_AIS rng sev n False
     = replicate n [1 / (1 + exp (2.9297 - 0.5533 * score sev))]"
  by (simp add: prob_LVO_given_AIS_def p_lvo_logistic_helper_def map_replicate)

lemma prob_LVO_length: "length (prob_LVO_given_AIS rng sev n u) = n"
  by (simp add: prob_LVO_given_AIS_def Let_def)

lemma prob_LVO_draws:
  assumes "\<forall>i. 0 \<le> rng i \<and> rng i < 1" and "0 \<le> score sev"
    and "row \<in> set (prob_LVO_given_AIS rng sev n True)"
  shows "\<exists>x. row = [x] \<and> p_lvo_logistic_helper sev (- 3.6526) 0.4141 \<le> x
            \<and> x \<le> p_lvo_logistic_helper sev (- 2.2067) 0.6925"
proof -
  let ?lower = "p_lvo_logistic_helper sev (- 3.6526) 0.4141"
  let ?upper = "p_lvo_logistic_helper sev (- 2.2067) 0.6925"
  from assms(3) obtain i where row: "row = [?lower + (?upper - ?lower) * rng i]"
    by (auto simp: prob_LVO_given_AIS_def Let_def)
  have lu: "?lower \<le> ?upper"
    using lvo_curves_ordered [OF assms(2)] by (rule order_trans)
  have "0 \<le> rng i" "rng i < 1" using assms(1) by simp_all
  from uniform_between [OF lu this] row show ?thesis by simp
qed


lemma logistic_helper_unfold:
  "p_lvo_logistic_helper sev (- 3.6526) 0.4141 = 1 / (1 + exp (3.6526 - 0.4141 * score sev))"
  "p_lvo_logistic_helper sev (- 2.9297) 0.5533 = 1 / (1 + exp (2.9297 - 0.5533 * score sev))"
  "p_lvo_logistic_helper sev (- 2.2067) 0.6925 = 1 / (1 + exp (2.2067 - 0.6925 * score sev))"
  by (simp_all add: p_lvo_logistic_helper_def)

text \<open>
  C7. For a severity the RACE constructor accepts (score in [0, 9]) and a generator whose
  variates lie in [0, 1): without uncertainty \<^verbatim>\<open>prob_LVO_given_AIS\<close> returns the point
  value \<open>1 / (1 + exp (2.9297 - 0.5533 * score))\<close>, repeated for all \<open>n\<close> samples; with
  uncertainty it returns \<open>n\<close> draws, each between the lower curve, of coefficients
  (-3.6526, 0.4141), and the upper curve, of coefficients (-2.2067, 0.6925); and the point
  value lies between the two curves.
\<close>

theorem C7_prob_LVO:
  assumes "RACE_init r = Inr sev" and "\<forall>i. 0 \<le> rng i \<and> rng i < 1"
  shows "prob_LVO_given_AIS rng sev n False
           = replicate n [1 / (1 + exp (2.9297 - 0.5533 * score sev))]
       \<and> length (prob_LVO_given_AIS rng sev n True) = n
       \<and> (\<forall>row \<in> set (prob_LVO_given_AIS rng sev n True).
             \<exists>x. row = [x] \<and> 1 / (1 + exp (3.6526 - 0.4141 * score sev)) \<le> x
                       \<and> x \<le> 1 / (1 + exp (2.2067 - 0.6925 * score sev)))
       \<and> 1 / (1 + exp (3.6526 - 0.4141 * score sev)) \<le> 1 / (1 + exp (2.9297 - 0.5533 * score sev))
       \<and> 1 / (1 + exp (2.9297 - 0.5533 * score sev)) \<le> 1 / (1 + exp (2.2067 - 0.6925 * score sev))"
proof -
  from assms(1) have s: "0 \<le> score sev" by (auto simp: RACE_init_Inr)
  have "\<forall>row \<in> set (prob_LVO_given_AIS rng sev n True).
             \<exists>x. row = [x] \<and> 1 / (1 + exp (3.6526 - 0.4141 * score sev)) \<le> x
                       \<and> x \<le> 1 / (1 + exp (2.2067 - 0.6925 * score sev))"
    using prob_LVO_draws [OF assms(2) s] unfolding logistic_helper_unfold by blast
  moreover note prob_LVO_point [of rng sev n] prob_LVO_length [of rng sev n True]
    lvo_curves_ordered [OF s, unfolded logistic_helper_unfold]
  ultimately show ?thesis by blast
qed

theorem C7_prob_LVO_witness:
  "RACE_init 5 = Inr \<lparr>score = 5, NIHSS = 11.56\<rparr>
   \<and> prob_LVO_given_AIS (\<lambda>i. 1 / 2) \<lparr>score = 5, NIHSS = 11.56\<rparr> 2 False
        = [[1 / (1 + exp (2.9297 - 0.5533 * 5))], [1 / (1 + exp (2.9297 - 0.5533 * 5))]]
   \<and> length (prob_LVO_given_AIS (\<lambda>i. 1 / 2) \<lparr>score = 5, NIHSS = 11.56\<rparr> 2 True) = 2
   \<and> 1 / (1 + exp (3.6526 - 0.4141 * 5)) \<le> (1 / (1 + exp (2.9297 - 0.5533 * 5)) :: real)"
proof -
  have a: "RACE_init 5 = Inr \<lparr>score = 5, NIHSS = 11.56\<rparr>"
    by (simp add: RACE_init_def get_NIHSS_def)
  have b: "\<forall>i::nat. 0 \<le> (1 / 2 :: real) \<and> (1 / 2 :: real) < 1" by simp
  show ?thesis
    using a C7_prob_LVO [OF a b, of 2] by (simp add: numeral_2_eq_2)
qed

section \<open>Good outcome without a large vessel occlusion\<close>














section \<open>Ranges of the probabilities\<close>











end
